theory Spec2Isabelle
  imports Complex_Main "HOL-Library.Char_ord" "HOL-Library.List_Lexorder"
begin

section \<open>Camera contract: error codes and capture configuration (icamera.h)\<close>

text \<open>
  \<^verbatim>\<open>enum class CameraError\<close>: one constructor per enumerator, in the order of the
  header; \<open>error_code\<close> is the integer each enumerator is declared with.
\<close>

datatype CameraError =
    SUCCESS
  | DEVICE_NOT_FOUND
  | CONNECTION_FAILED
  | INITIALIZATION_FAILED
  | CAPTURE_FAILED
  | INVALID_CONFIGURATION
  | HARDWARE_FAULT
  | FIRMWARE_ERROR
  | CALIBRATION_ERROR
  | TIMEOUT
  | INSUFFICIENT_POWER
  | TEMPERATURE_ERROR
  | MEMORY_ERROR
  | SAFETY_VIOLATION

fun error_code :: "CameraError \<Rightarrow> int" where
  "error_code SUCCESS = 0"
| "error_code DEVICE_NOT_FOUND = 1001"
| "error_code CONNECTION_FAILED = 1002"
| "error_code INITIALIZATION_FAILED = 1003"
| "error_code CAPTURE_FAILED = 1004"
| "error_code INVALID_CONFIGURATION = 1005"
| "error_code HARDWARE_FAULT = 1006"
| "error_code FIRMWARE_ERROR = 1007"
| "error_code CALIBRATION_ERROR = 1008"
| "error_code TIMEOUT = 1009"
| "error_code INSUFFICIENT_POWER = 1010"
| "error_code TEMPERATURE_ERROR = 1011"
| "error_code MEMORY_ERROR = 1012"
| "error_code SAFETY_VIOLATION = 1013"

text \<open>
  A \<^verbatim>\<open>float\<close> is modelled by the real number it holds. The literals \<open>0.5f\<close>,
  \<open>1.0f\<close> and \<open>70.0f\<close> are exact in binary; the others name the nearest
  single-precision number, written out here as a fraction with a power of two below.
\<close>

definition float_0_8 :: real where
  "float_0_8 = 13421773 / 16777216"

definition float_0_9 :: real where
  "float_0_9 = 15099494 / 16777216"

definition float_0_95 :: real where
  "float_0_95 = 15938355 / 16777216"

definition float_0_01 :: real where
  "float_0_01 = 10737418 / 1073741824"

lemmas float_literals = float_0_8_def float_0_9_def float_0_95_def float_0_01_def

text \<open>
  \<^verbatim>\<open>struct CameraConfig\<close>, with the default member initialisers of the header as
  \<open>default_CameraConfig\<close>.
\<close>

record CameraConfig =
  width :: int
  height :: int
  fps :: int
  enable_color :: bool
  enable_depth :: bool
  enable_infrared :: bool
  color_format :: int
  auto_exposure :: bool
  exposure_value :: int
  auto_white_balance :: bool
  enable_hardware_sync :: bool
  buffer_size :: int
  timeout_ms :: int
  enable_validation :: bool
  enable_checksums :: bool
  min_confidence :: real
  max_temperature :: real
  watchdog_timeout_ms :: int
  enable_safety_monitoring :: bool

definition default_CameraConfig :: CameraConfig where
  "default_CameraConfig =
     \<lparr> width = 640, height = 480, fps = 30,
       enable_color = True, enable_depth = True, enable_infrared = False,
       color_format = 0, auto_exposure = True, exposure_value = 0,
       auto_white_balance = True,
       enable_hardware_sync = True, buffer_size = 5, timeout_ms = 1000,
       enable_validation = True, enable_checksums = True, min_confidence = float_0_8,
       max_temperature = 70.0, watchdog_timeout_ms = 5000,
       enable_safety_monitoring = True \<rparr>"

section \<open>Camera factory: data (camera_factory.h)\<close>

text \<open>
  \<^verbatim>\<open>struct HardwareDetectionResult\<close>. The confidence is the real number that the
  \<^verbatim>\<open>float\<close> holds: comparisons of two confidences are then exact, and only the rounding
  of the difference in the sort comparator is left out (the difference of the two
  confidences that detection assigns, \<open>0.95f\<close> and \<open>0.9f\<close>, is itself a
  single-precision number, so nothing is rounded there). The \<^verbatim>\<open>std::map\<close> of
  additional information is the list of its entries in key order.
\<close>

record HardwareDetectionResult =
  camera_type :: string
  model_name :: string
  serial_number :: string
  firmware_version :: string
  is_medical_grade :: bool
  is_production_ready :: bool
  detection_confidence :: real
  connection_interface :: string
  additional_info :: "(string \<times> string) list"

text \<open>\<^verbatim>\<open>struct CameraFactoryConfig\<close> and the \<^verbatim>\<open>DEFAULT_CONFIG\<close> of camera_factory.cpp.\<close>

record CameraFactoryConfig =
  prefer_production_hardware :: bool
  enable_automatic_detection :: bool
  enable_hardware_validation :: bool
  enable_medical_compliance_check :: bool
  preferred_camera_type :: string
  detection_timeout_ms :: int
  enable_fallback_mode :: bool
  enable_simulation_mode :: bool

definition DEFAULT_CONFIG :: CameraFactoryConfig where
  "DEFAULT_CONFIG =
     \<lparr> prefer_production_hardware = True,
       enable_automatic_detection = True,
       enable_hardware_validation = True,
       enable_medical_compliance_check = True,
       preferred_camera_type = ''auto'',
       detection_timeout_ms = 5000,
       enable_fallback_mode = True,
       enable_simulation_mode = False \<rparr>"

text \<open>
  A caught \<^verbatim>\<open>std::exception\<close> is the string its \<^verbatim>\<open>what()\<close> returns. Of a camera
  that a vendor sub-factory hands back the factory only ever calls \<^verbatim>\<open>validate()\<close>,
  so such a camera is modelled by a tag and by what that call does (throw, or return
  an error code). A camera object is either the factory's own
  \<^verbatim>\<open>SimulationCamera(camera_type)\<close> or a device camera. \<^verbatim>\<open>nullptr\<close> is \<open>None\<close>.
\<close>

type_synonym exception = string

datatype device_camera = DeviceCamera string "exception + CameraError"

fun validate :: "device_camera \<Rightarrow> exception + CameraError" where
  "validate (DeviceCamera tag outcome) = outcome"

datatype camera =
    SimulationCamera string
  | Device device_camera

text \<open>
  Everything the factory reaches outside this repository's sources: the two build
  macros, the two vendor sub-factories (\<^verbatim>\<open>D435CameraFactory\<close>,
  \<^verbatim>\<open>FemtoMegaCameraFactory\<close>: declared, not defined here) and the constructor of
  \<^verbatim>\<open>SimulationCamera\<close> (header not in the sources), which may throw. Each call either
  throws (\<open>Inl\<close>, \<open>Some\<close> for the constructor) or returns.
\<close>

record hardware =
  THERAPY_DEVICE_HAS_REALSENSE :: bool
  THERAPY_DEVICE_HAS_ORBBEC :: bool
  d435_detectConnectedCameras :: "exception + string list"
  femto_detectConnectedCameras :: "exception + string list"
  d435_getAvailableCameraTypes :: "string list"
  femto_getAvailableCameraTypes :: "string list"
  d435_createCamera :: "string \<Rightarrow> exception + device_camera option"
  femto_createCamera :: "string \<Rightarrow> exception + device_camera option"
  SimulationCamera_throws :: "string \<Rightarrow> exception option"

text \<open>
  The members of \<^verbatim>\<open>class CameraFactory\<close> (the trailing underscore of the C++ names is
  dropped). Time points are ticks of the system clock, in nanoseconds; the custom
  factory table is the list of the entries of the \<^verbatim>\<open>std::map\<close>, each creator being what
  calling it does. The logger is not modelled, and neither is the mutex: the model
  runs one operation at a time. In the source \<^verbatim>\<open>createCamera("auto")\<close> takes the lock
  and, outside simulation mode and with a candidate selected, reaches
  \<^verbatim>\<open>createCamera\<close> again through \<^verbatim>\<open>createBestCamera\<close>, where it locks the same
  non-recursive mutex a second time and does not return; the model gives that call
  the result its body computes. Nothing below is stated about the result of
  \<^verbatim>\<open>createCamera("auto")\<close>: automatic selection is entered through
  \<^verbatim>\<open>createBestCamera\<close>, which takes the lock once.
\<close>

type_synonym time_point = int

record CameraFactory =
  config :: CameraFactoryConfig
  is_initialized :: bool
  simulation_mode :: bool
  detection_cache :: "HardwareDetectionResult list"
  last_detection_time :: time_point
  detection_cache_valid :: bool
  custom_factories :: "(string \<times> (exception + camera option)) list"
  error_messages :: "string list"
  medical_compliance_verified :: bool

definition DETECTION_CACHE_TIMEOUT :: int where
  "DETECTION_CACHE_TIMEOUT = 5 * 60 * 1000000000"

section \<open>Camera factory: operations (camera_factory.cpp)\<close>

subsection \<open>Error messages and detection cache\<close>

definition addErrorMessage :: "string \<Rightarrow> CameraFactory \<Rightarrow> CameraFactory" where
  "addErrorMessage message f =
     (let pushed = error_messages f @ [message]
      in f\<lparr>error_messages := (if length pushed > 100 then tl pushed else pushed)\<rparr>)"

definition clearErrorMessages :: "CameraFactory \<Rightarrow> CameraFactory" where
  "clearErrorMessages f = f\<lparr>error_messages := []\<rparr>"

definition invalidateDetectionCache :: "CameraFactory \<Rightarrow> CameraFactory" where
  "invalidateDetectionCache f = f\<lparr>detection_cache_valid := False, detection_cache := []\<rparr>"

text \<open>\<open>now\<close> is what \<^verbatim>\<open>system_clock::now()\<close> returns inside the function.\<close>

definition isDetectionCacheValid :: "time_point \<Rightarrow> CameraFactory \<Rightarrow> bool" where
  "isDetectionCacheValid now f =
     (if \<not> detection_cache_valid f then False
      else now - last_detection_time f < DETECTION_CACHE_TIMEOUT)"

definition configure :: "CameraFactoryConfig \<Rightarrow> CameraFactory \<Rightarrow> CameraFactory" where
  "configure cfg f =
     (let f1 = f\<lparr>config := cfg\<rparr>;
          f2 = invalidateDetectionCache f1
      in f2\<lparr>simulation_mode := enable_simulation_mode (config f2)\<rparr>)"

definition getConfiguration :: "CameraFactory \<Rightarrow> CameraFactoryConfig" where
  "getConfiguration f = config f"

subsection \<open>Hardware detection\<close>

definition degree_sign :: string where
  "degree_sign = [CHR 0xC2, CHR 0xB0]"

definition plus_minus_sign :: string where
  "plus_minus_sign = [CHR 0xC2, CHR 0xB1]"

text \<open>
  The record that each probe builds for one connected camera, and the probes. A probe
  catches what its sub-factory throws and then returns the empty vector; without its
  build macro it returns the empty vector at once.
\<close>

definition d435_result :: "string \<Rightarrow> HardwareDetectionResult" where
  "d435_result camera_id =
     \<lparr> camera_type = ''d435'',
       model_name = ''Intel RealSense D435'',
       serial_number = camera_id,
       firmware_version = ''Unknown'',
       is_medical_grade = False,
       is_production_ready = False,
       detection_confidence = float_0_9,
       connection_interface = ''USB 3.0'',
       additional_info =
         [(''depth_technology'', ''Active IR Stereo''),
          (''fov'', ''87'' @ degree_sign @ '' x 58'' @ degree_sign @ '' x 95'' @ degree_sign),
          (''sdk_version'', ''librealsense2'')] \<rparr>"

definition femto_mega_result :: "string \<Rightarrow> HardwareDetectionResult" where
  "femto_mega_result camera_id =
     \<lparr> camera_type = ''femto_mega'',
       model_name = ''ORBBEC Femto Mega'',
       serial_number = camera_id,
       firmware_version = ''Unknown'',
       is_medical_grade = True,
       is_production_ready = True,
       detection_confidence = float_0_95,
       connection_interface = ''USB 3.0'',
       additional_info =
         [(''accuracy'', plus_minus_sign @ ''1mm @ 1m''),
          (''depth_technology'', ''Structured Light''),
          (''medical_certification'', ''Available''),
          (''sdk_version'', ''OrbbecSDK'')] \<rparr>"

definition detectD435Hardware :: "hardware \<Rightarrow> HardwareDetectionResult list" where
  "detectD435Hardware hw =
     (if THERAPY_DEVICE_HAS_REALSENSE hw then
        (case d435_detectConnectedCameras hw of
           Inl e \<Rightarrow> []
         | Inr connected_d435 \<Rightarrow> map d435_result connected_d435)
      else [])"

definition detectFemtoMegaHardware :: "hardware \<Rightarrow> HardwareDetectionResult list" where
  "detectFemtoMegaHardware hw =
     (if THERAPY_DEVICE_HAS_ORBBEC hw then
        (case femto_detectConnectedCameras hw of
           Inl e \<Rightarrow> []
         | Inr connected_femto \<Rightarrow> map femto_mega_result connected_femto)
      else [])"

definition d435_sim :: HardwareDetectionResult where
  "d435_sim =
     \<lparr> camera_type = ''d435_sim'',
       model_name = ''Intel RealSense D435 (Simulation)'',
       serial_number = ''SIM001'',
       firmware_version = ''1.0.0-sim'',
       is_medical_grade = True,
       is_production_ready = False,
       detection_confidence = 1.0,
       connection_interface = ''Simulation'',
       additional_info = [] \<rparr>"

definition femto_sim :: HardwareDetectionResult where
  "femto_sim =
     \<lparr> camera_type = ''femto_mega_sim'',
       model_name = ''ORBBEC Femto Mega (Simulation)'',
       serial_number = ''SIM002'',
       firmware_version = ''2.0.0-sim'',
       is_medical_grade = True,
       is_production_ready = True,
       detection_confidence = 1.0,
       connection_interface = ''Simulation'',
       additional_info = [] \<rparr>"

text \<open>
  The \<^verbatim>\<open>catch\<close> of \<^verbatim>\<open>performHardwareDetection\<close> has nothing to catch, both probes
  having caught their own exceptions, so the function leaves the factory as it is.
\<close>

definition performHardwareDetection ::
    "hardware \<Rightarrow> CameraFactory \<Rightarrow> HardwareDetectionResult list" where
  "performHardwareDetection hw f =
     (if simulation_mode f then [d435_sim, femto_sim]
      else detectD435Hardware hw @ detectFemtoMegaHardware hw)"

text \<open>
  \<open>now\<close> is the clock reading of the validity check, \<open>now'\<close> the later one stored with
  the fresh results.
\<close>

definition detectAllHardware ::
    "hardware \<Rightarrow> time_point \<Rightarrow> time_point \<Rightarrow> CameraFactory
       \<Rightarrow> HardwareDetectionResult list \<times> CameraFactory" where
  "detectAllHardware hw now now' f =
     (if isDetectionCacheValid now f then (detection_cache f, f)
      else
        (let results = performHardwareDetection hw f
         in (results,
             f\<lparr>detection_cache := results,
               last_detection_time := now',
               detection_cache_valid := True\<rparr>)))"

subsection \<open>Selection\<close>

text \<open>
  \<^verbatim>\<open>std::sort\<close> is the standard library's. On a range of at most sixteen elements the
  GNU implementation runs the insertion sort below: each element in turn goes to the
  front when it compares less than the first element, and otherwise moves left past
  every element it compares less than. \<open>unguarded_linear_insert\<close> takes the sorted
  prefix last element first. The result is a permutation of the input for every
  comparator, also for one that is no strict weak order (the comparator below lets a
  record of the preferred type compare less than another of that type, and itself).
  On a longer range the library partitions before it inserts, and the order it
  produces can differ from the one computed here (with a comparator that is no strict
  weak order its behaviour is undefined). The lists evaluated below are short; what
  is proved of every list, that the selected record is one of the list and passes
  validation, uses only that sorting permutes the list.
\<close>

fun unguarded_linear_insert :: "('a \<Rightarrow> 'a \<Rightarrow> bool) \<Rightarrow> 'a \<Rightarrow> 'a list \<Rightarrow> 'a list" where
  "unguarded_linear_insert cmp val [] = [val]"
| "unguarded_linear_insert cmp val (y # ys) =
     (if cmp val y then y # unguarded_linear_insert cmp val ys else val # y # ys)"

fun linear_insert :: "('a \<Rightarrow> 'a \<Rightarrow> bool) \<Rightarrow> 'a list \<Rightarrow> 'a \<Rightarrow> 'a list" where
  "linear_insert cmp [] val = [val]"
| "linear_insert cmp (x # xs) val =
     (if cmp val x then val # x # xs
      else rev (unguarded_linear_insert cmp val (rev (x # xs))))"

definition std_sort :: "('a \<Rightarrow> 'a \<Rightarrow> bool) \<Rightarrow> 'a list \<Rightarrow> 'a list" where
  "std_sort cmp xs = foldl (linear_insert cmp) [] xs"

text \<open>The comparator that \<^verbatim>\<open>selectBestCamera\<close> passes to the sort.\<close>

definition selectBestCamera_comp ::
    "CameraFactoryConfig \<Rightarrow> HardwareDetectionResult \<Rightarrow> HardwareDetectionResult \<Rightarrow> bool" where
  "selectBestCamera_comp cfg a b =
     (if enable_medical_compliance_check cfg \<and> is_medical_grade a \<noteq> is_medical_grade b
        then is_medical_grade a \<and> \<not> is_medical_grade b
      else if prefer_production_hardware cfg \<and> is_production_ready a \<noteq> is_production_ready b
        then is_production_ready a \<and> \<not> is_production_ready b
      else if \<bar>detection_confidence a - detection_confidence b\<bar> > float_0_01
        then detection_confidence a > detection_confidence b
      else if preferred_camera_type cfg \<noteq> ''auto''
              \<and> camera_type a = preferred_camera_type cfg then True
      else if preferred_camera_type cfg \<noteq> ''auto''
              \<and> camera_type b = preferred_camera_type cfg then False
      else if camera_type a \<noteq> camera_type b then camera_type a = ''femto_mega''
      else False)"

definition checkMedicalCertification :: "HardwareDetectionResult \<Rightarrow> bool" where
  "checkMedicalCertification result = is_medical_grade result"

definition validateDetectionResult ::
    "CameraFactoryConfig \<Rightarrow> HardwareDetectionResult \<Rightarrow> bool" where
  "validateDetectionResult cfg result =
     (if enable_medical_compliance_check cfg \<and> \<not> checkMedicalCertification result then False
      else if detection_confidence result < 0.5 then False
      else True)"

text \<open>
  The loop of \<^verbatim>\<open>selectBestCamera\<close> stops at the first sorted record that passes
  validation; \<open>selectBestRecord\<close> is that record, and the function returns its type
  tag, or the empty string.
\<close>

definition selectBestRecord ::
    "CameraFactoryConfig \<Rightarrow> HardwareDetectionResult list \<Rightarrow> HardwareDetectionResult option" where
  "selectBestRecord cfg detected_hardware =
     find (validateDetectionResult cfg) (std_sort (selectBestCamera_comp cfg) detected_hardware)"

definition selectBestCamera ::
    "CameraFactoryConfig \<Rightarrow> HardwareDetectionResult list \<Rightarrow> string" where
  "selectBestCamera cfg detected_hardware =
     (if detected_hardware = [] then []
      else (case selectBestRecord cfg detected_hardware of
              Some result \<Rightarrow> camera_type result
            | None \<Rightarrow> []))"

subsection \<open>Creation\<close>

definition createSimulationCamera ::
    "hardware \<Rightarrow> CameraFactory \<Rightarrow> string \<Rightarrow> camera option \<times> CameraFactory" where
  "createSimulationCamera hw f requested_type =
     (case SimulationCamera_throws hw requested_type of
        None \<Rightarrow> (Some (SimulationCamera requested_type), f)
      | Some e \<Rightarrow>
          (None, addErrorMessage (''Failed to create simulation camera: '' @ e) f))"

text \<open>
  The \<^verbatim>\<open>try\<close> block of \<^verbatim>\<open>createCamera\<close>: \<open>validateCreated\<close> is what follows the
  sub-factory's call once it has returned, \<open>createSpecificCamera\<close> the block with its
  \<^verbatim>\<open>catch\<close>, and \<open>createCustomCamera\<close> the call of a registered creator.
\<close>

definition validateCreated ::
    "CameraFactory \<Rightarrow> string \<Rightarrow> device_camera option
       \<Rightarrow> camera option \<times> CameraFactory" where
  "validateCreated f requested_type created =
     (case created of
        None \<Rightarrow> (None, addErrorMessage (''Failed to create camera: '' @ requested_type) f)
      | Some cam \<Rightarrow>
          if enable_hardware_validation (config f) then
            (case validate cam of
               Inl e \<Rightarrow> (None, addErrorMessage (''Exception creating camera: '' @ e) f)
             | Inr validation_result \<Rightarrow>
                 if validation_result \<noteq> SUCCESS
                 then (None, addErrorMessage (''Camera validation failed for '' @ requested_type) f)
                 else (Some (Device cam), f))
          else (Some (Device cam), f))"

definition createSpecificCamera ::
    "hardware \<Rightarrow> CameraFactory \<Rightarrow> string \<Rightarrow> camera option \<times> CameraFactory" where
  "createSpecificCamera hw f requested_type =
     (if requested_type = ''d435'' then
        (case d435_createCamera hw requested_type of
           Inl e \<Rightarrow> (None, addErrorMessage (''Exception creating camera: '' @ e) f)
         | Inr created \<Rightarrow> validateCreated f requested_type created)
      else if requested_type = ''femto_mega'' then
        (case femto_createCamera hw requested_type of
           Inl e \<Rightarrow> (None, addErrorMessage (''Exception creating camera: '' @ e) f)
         | Inr created \<Rightarrow> validateCreated f requested_type created)
      else (None, addErrorMessage (''Unknown camera type: '' @ requested_type) f))"

definition createCustomCamera ::
    "CameraFactory \<Rightarrow> (exception + camera option) \<Rightarrow> camera option \<times> CameraFactory" where
  "createCustomCamera f creator =
     (case creator of
        Inl e \<Rightarrow> (None, addErrorMessage (''Custom factory failed: '' @ e) f)
      | Inr created \<Rightarrow> (created, f))"

text \<open>
  \<^verbatim>\<open>createCamera("auto")\<close> calls \<^verbatim>\<open>createBestCamera\<close>, which calls \<^verbatim>\<open>createCamera\<close> with
  the selected type. The recursion ends because the selected type is the type of a
  detected record, and detection only produces the four tags below.
\<close>

lemma set_unguarded_linear_insert:
  "set (unguarded_linear_insert cmp val ys) = insert val (set ys)"
  by (induction ys) auto

lemma set_linear_insert: "set (linear_insert cmp xs val) = insert val (set xs)"
  by (cases xs) (auto simp: set_unguarded_linear_insert)

lemma set_foldl_linear_insert:
  "set (foldl (linear_insert cmp) acc xs) = set acc \<union> set xs"
  by (induction xs arbitrary: acc) (auto simp: set_linear_insert)

lemma set_std_sort: "set (std_sort cmp xs) = set xs"
  by (simp add: std_sort_def set_foldl_linear_insert)

lemma selectBestRecord_Some:
  "selectBestRecord cfg ds = Some r \<Longrightarrow> r \<in> set ds \<and> validateDetectionResult cfg r"
  unfolding selectBestRecord_def
  by (metis find_Some_iff nth_mem set_std_sort)

lemma detectD435Hardware_type:
  "r \<in> set (detectD435Hardware hw) \<Longrightarrow> camera_type r = ''d435''"
  unfolding detectD435Hardware_def
  by (cases "THERAPY_DEVICE_HAS_REALSENSE hw"; cases "d435_detectConnectedCameras hw";
      auto simp: d435_result_def)

lemma detectFemtoMegaHardware_type:
  "r \<in> set (detectFemtoMegaHardware hw) \<Longrightarrow> camera_type r = ''femto_mega''"
  unfolding detectFemtoMegaHardware_def
  by (cases "THERAPY_DEVICE_HAS_ORBBEC hw"; cases "femto_detectConnectedCameras hw";
      auto simp: femto_mega_result_def)

lemma performHardwareDetection_types:
  "r \<in> set (performHardwareDetection hw f) \<Longrightarrow>
     camera_type r \<in> {''d435'', ''femto_mega'', ''d435_sim'', ''femto_mega_sim''}"
  by (cases "simulation_mode f")
     (auto simp: performHardwareDetection_def d435_sim_def femto_sim_def
        dest: detectD435Hardware_type detectFemtoMegaHardware_type)

lemma selectBestCamera_detected_not_auto:
  "selectBestCamera cfg (performHardwareDetection hw f) \<noteq> ''auto''"
proof
  assume a: "selectBestCamera cfg (performHardwareDetection hw f) = ''auto''"
  then obtain r where "selectBestRecord cfg (performHardwareDetection hw f) = Some r"
    and "camera_type r = ''auto''"
    by (auto simp: selectBestCamera_def split: if_splits option.splits)
  then show False
    using selectBestRecord_Some performHardwareDetection_types by fastforce
qed

text \<open>
  \<^verbatim>\<open>createCamera\<close> and \<^verbatim>\<open>createBestCamera\<close>, each returning the camera (or \<^verbatim>\<open>nullptr\<close>)
  and the factory with the error messages it added.
\<close>

function createCamera :: "hardware \<Rightarrow> CameraFactory \<Rightarrow> string \<Rightarrow> camera option \<times> CameraFactory"
  and createBestCamera :: "hardware \<Rightarrow> CameraFactory \<Rightarrow> camera option \<times> CameraFactory" where
  "createCamera hw f requested_type =
     (if simulation_mode f then createSimulationCamera hw f requested_type
      else if requested_type = ''auto'' then createBestCamera hw f
      else (case map_of (custom_factories f) requested_type of
              Some creator \<Rightarrow> createCustomCamera f creator
            | None \<Rightarrow> createSpecificCamera hw f requested_type))"
| "createBestCamera hw f =
     (let detected_hardware = performHardwareDetection hw f
      in if detected_hardware = [] then
           (if enable_fallback_mode (config f) \<and> enable_simulation_mode (config f)
            then createSimulationCamera hw f ''d435''
            else (None, addErrorMessage ''No cameras detected and fallback disabled'' f))
         else
           (let best_camera_type = selectBestCamera (config f) detected_hardware
            in if best_camera_type = []
               then (None, addErrorMessage ''No suitable camera found'' f)
               else createCamera hw f best_camera_type))"
  by pat_completeness auto
termination
  by (relation "measure (\<lambda>call. case call of
                   Inl (hw, f, requested_type) \<Rightarrow>
                     if \<not> simulation_mode f \<and> requested_type = ''auto'' then 2 else 0
                 | Inr (hw, f) \<Rightarrow> 1)")
     (simp_all add: selectBestCamera_detected_not_auto)

text \<open>The convenience functions that are defined in camera_factory.cpp.\<close>

definition createDefaultCamera :: "hardware \<Rightarrow> CameraFactory \<Rightarrow> camera option \<times> CameraFactory" where
  "createDefaultCamera hw f = createBestCamera hw f"

definition createDevelopmentCamera ::
    "hardware \<Rightarrow> CameraFactory \<Rightarrow> camera option \<times> CameraFactory" where
  "createDevelopmentCamera hw f =
     (let dev_config = (getConfiguration f)
            \<lparr> prefer_production_hardware := False,
              enable_medical_compliance_check := False,
              preferred_camera_type := ''d435'' \<rparr>
      in createBestCamera hw (configure dev_config f))"

definition createProductionCamera ::
    "hardware \<Rightarrow> CameraFactory \<Rightarrow> camera option \<times> CameraFactory" where
  "createProductionCamera hw f =
     (let prod_config = (getConfiguration f)
            \<lparr> prefer_production_hardware := True,
              enable_medical_compliance_check := True,
              preferred_camera_type := ''femto_mega'',
              enable_simulation_mode := False \<rparr>
      in createBestCamera hw (configure prod_config f))"

subsection \<open>Listing camera types and connected cameras\<close>

text \<open>
  \<^verbatim>\<open>std::sort\<close> on strings orders them bytewise; \<^verbatim>\<open>std::unique\<close> then drops adjacent
  repetitions.
\<close>

definition getAvailableCameraTypes :: "hardware \<Rightarrow> CameraFactory \<Rightarrow> string list" where
  "getAvailableCameraTypes hw f =
     (let standard = (if \<not> simulation_mode f
                      then d435_getAvailableCameraTypes hw @ femto_getAvailableCameraTypes hw
                      else []);
          custom = map fst (custom_factories f);
          simulated = (if simulation_mode f then [''d435_sim'', ''femto_mega_sim''] else [])
      in remdups_adj (sort (standard @ custom @ simulated)))"

definition detectConnectedCameras :: "hardware \<Rightarrow> CameraFactory \<Rightarrow> string list \<times> CameraFactory" where
  "detectConnectedCameras hw f =
     (if simulation_mode f then ([''d435_sim'', ''femto_mega_sim''], f)
      else
        (case d435_detectConnectedCameras hw of
           Inl e \<Rightarrow> ([], addErrorMessage (''Camera detection failed: '' @ e) f)
         | Inr d435_cameras \<Rightarrow>
             (case femto_detectConnectedCameras hw of
                Inl e \<Rightarrow> (d435_cameras, addErrorMessage (''Camera detection failed: '' @ e) f)
              | Inr femto_cameras \<Rightarrow> (d435_cameras @ femto_cameras, f))))"

subsection \<open>Construction\<close>

text \<open>
  The loop of \<^verbatim>\<open>initialize\<close> over the detected records, then \<^verbatim>\<open>initialize\<close> and the
  constructor. A default-constructed time point is the clock's epoch.
\<close>

definition noteUncertified :: "CameraFactory \<Rightarrow> HardwareDetectionResult \<Rightarrow> CameraFactory" where
  "noteUncertified f result =
     (if \<not> checkMedicalCertification result
      then addErrorMessage
             (''Hardware '' @ camera_type result @ '' does not meet medical device requirements'')
             (f\<lparr>medical_compliance_verified := False\<rparr>)
      else f)"

definition initialize :: "hardware \<Rightarrow> CameraFactory \<Rightarrow> CameraFactory" where
  "initialize hw f =
     (if is_initialized f then f
      else
        (let f1 = clearErrorMessages f;
             f2 = (if enable_automatic_detection (config f1) then
                     (let detected = performHardwareDetection hw f1
                      in if enable_medical_compliance_check (config f1)
                         then foldl noteUncertified
                                (f1\<lparr>medical_compliance_verified := True\<rparr>) detected
                         else f1)
                   else f1)
         in f2\<lparr>is_initialized := True\<rparr>))"

definition new_CameraFactory :: "hardware \<Rightarrow> CameraFactory" where
  "new_CameraFactory hw =
     initialize hw
       \<lparr> config = DEFAULT_CONFIG,
         is_initialized = False,
         simulation_mode = False,
         detection_cache = [],
         last_detection_time = 0,
         detection_cache_valid = False,
         custom_factories = [],
         error_messages = [],
         medical_compliance_verified = False \<rparr>"

subsection \<open>Sequences of operations\<close>

text \<open>
  The public operations defined in camera_factory.cpp, as one step each on the factory.
  Each step comes with the state of the hardware it meets; \<^verbatim>\<open>detectAllHardware\<close> also
  with its two clock readings.
\<close>

datatype operation =
    Configure CameraFactoryConfig
  | GetConfiguration
  | CreateCamera string
  | CreateBestCamera
  | GetAvailableCameraTypes
  | DetectConnectedCameras
  | DetectAllHardware time_point time_point
  | CreateDefaultCamera
  | CreateDevelopmentCamera
  | CreateProductionCamera

fun step :: "CameraFactory \<Rightarrow> hardware \<times> operation \<Rightarrow> CameraFactory" where
  "step f (hw, Configure cfg) = configure cfg f"
| "step f (hw, GetConfiguration) = f"
| "step f (hw, CreateCamera requested_type) = snd (createCamera hw f requested_type)"
| "step f (hw, CreateBestCamera) = snd (createBestCamera hw f)"
| "step f (hw, GetAvailableCameraTypes) = f"
| "step f (hw, DetectConnectedCameras) = snd (detectConnectedCameras hw f)"
| "step f (hw, DetectAllHardware now now') = snd (detectAllHardware hw now now' f)"
| "step f (hw, CreateDefaultCamera) = snd (createDefaultCamera hw f)"
| "step f (hw, CreateDevelopmentCamera) = snd (createDevelopmentCamera hw f)"
| "step f (hw, CreateProductionCamera) = snd (createProductionCamera hw f)"

definition run :: "hardware \<Rightarrow> (hardware \<times> operation) list \<Rightarrow> CameraFactory" where
  "run hw0 ops = foldl step (new_CameraFactory hw0) ops"

declare createCamera.simps [simp del] createBestCamera.simps [simp del]

section \<open>Concrete inputs\<close>

text \<open>
  Hardware states on which the operations are evaluated below: a bench with one camera
  of each kind connected and working, the same bench with a structured-light camera
  whose creation fails, a bench with only the stereo-IR camera, one with nothing
  connected, and one where constructing a simulation camera throws. The serial numbers
  and the exception's message are arbitrary.
\<close>

definition bench :: hardware where
  "bench =
     \<lparr> THERAPY_DEVICE_HAS_REALSENSE = True,
       THERAPY_DEVICE_HAS_ORBBEC = True,
       d435_detectConnectedCameras = Inr [''D-0001''],
       femto_detectConnectedCameras = Inr [''F-0001''],
       d435_getAvailableCameraTypes = [''d435''],
       femto_getAvailableCameraTypes = [''femto_mega''],
       d435_createCamera = (\<lambda>t. Inr (Some (DeviceCamera ''d435'' (Inr SUCCESS)))),
       femto_createCamera = (\<lambda>t. Inr (Some (DeviceCamera ''femto_mega'' (Inr SUCCESS)))),
       SimulationCamera_throws = (\<lambda>t. None) \<rparr>"

definition bench_femto_broken :: hardware where
  "bench_femto_broken = bench\<lparr>femto_createCamera := (\<lambda>t. Inr None)\<rparr>"


definition bench_empty :: hardware where
  "bench_empty =
     bench\<lparr>d435_detectConnectedCameras := Inr [], femto_detectConnectedCameras := Inr []\<rparr>"

definition bench_sim_throws :: hardware where
  "bench_sim_throws = bench\<lparr>SimulationCamera_throws := (\<lambda>t. Some ''std::bad_alloc'')\<rparr>"

text \<open>
  Configurations: the one that \<^verbatim>\<open>createDevelopmentCamera\<close> installs on a new factory;
  the default one with simulation enabled and \<open>d435\<close> preferred (fallback is on by
  default); the default one with fallback off (simulation is off by default); and the
  default one without the medical compliance check.
\<close>

definition development_config :: CameraFactoryConfig where
  "development_config =
     DEFAULT_CONFIG\<lparr>prefer_production_hardware := False,
                      enable_medical_compliance_check := False,
                      preferred_camera_type := ''d435''\<rparr>"

definition fallback_config :: CameraFactoryConfig where
  "fallback_config = DEFAULT_CONFIG\<lparr>preferred_camera_type := ''d435'',
                                     enable_simulation_mode := True\<rparr>"


definition any_grade_config :: CameraFactoryConfig where
  "any_grade_config = DEFAULT_CONFIG\<lparr>enable_medical_compliance_check := False\<rparr>"

section \<open>Auxiliary notions\<close>

text \<open>
  Two factory states that differ at most in their error messages; a message list
  within the bound of \<^verbatim>\<open>addErrorMessage\<close>; an operation that does both; the operations
  that neither reconfigure the factory nor refresh the detection cache; two factory
  states with the same cache; and a factory whose simulation mode is what its
  configuration says.
\<close>

definition only_messages :: "CameraFactory \<Rightarrow> CameraFactory \<Rightarrow> bool" where
  "only_messages f f' \<longleftrightarrow> f' = f\<lparr>error_messages := error_messages f'\<rparr>"

definition bounded_messages :: "CameraFactory \<Rightarrow> bool" where
  "bounded_messages f \<longleftrightarrow> length (error_messages f) \<le> 100"

definition message_step :: "CameraFactory \<Rightarrow> CameraFactory \<Rightarrow> bool" where
  "message_step f f' \<longleftrightarrow> only_messages f f' \<and> (bounded_messages f \<longrightarrow> bounded_messages f')"

fun keeps_cache :: "operation \<Rightarrow> bool" where
  "keeps_cache (Configure cfg) = False"
| "keeps_cache (DetectAllHardware now now') = False"
| "keeps_cache CreateDevelopmentCamera = False"
| "keeps_cache CreateProductionCamera = False"
| "keeps_cache GetConfiguration = True"
| "keeps_cache (CreateCamera t) = True"
| "keeps_cache CreateBestCamera = True"
| "keeps_cache GetAvailableCameraTypes = True"
| "keeps_cache DetectConnectedCameras = True"
| "keeps_cache CreateDefaultCamera = True"


definition same_cache :: "CameraFactory \<Rightarrow> CameraFactory \<Rightarrow> bool" where
  "same_cache f f' \<longleftrightarrow>
     detection_cache f' = detection_cache f
     \<and> last_detection_time f' = last_detection_time f
     \<and> detection_cache_valid f' = detection_cache_valid f"

section \<open>Properties\<close>

subsection \<open>Auxiliary facts\<close>

lemma addErrorMessage_fields [simp]:
  "config (addErrorMessage m f) = config f"
  "is_initialized (addErrorMessage m f) = is_initialized f"
  "simulation_mode (addErrorMessage m f) = simulation_mode f"
  "detection_cache (addErrorMessage m f) = detection_cache f"
  "last_detection_time (addErrorMessage m f) = last_detection_time f"
  "detection_cache_valid (addErrorMessage m f) = detection_cache_valid f"
  "custom_factories (addErrorMessage m f) = custom_factories f"
  "medical_compliance_verified (addErrorMessage m f) = medical_compliance_verified f"
  by (simp_all add: addErrorMessage_def Let_def)

lemma noteUncertified_fields [simp]:
  "config (noteUncertified f r) = config f"
  "is_initialized (noteUncertified f r) = is_initialized f"
  "simulation_mode (noteUncertified f r) = simulation_mode f"
  "detection_cache (noteUncertified f r) = detection_cache f"
  "last_detection_time (noteUncertified f r) = last_detection_time f"
  "detection_cache_valid (noteUncertified f r) = detection_cache_valid f"
  "custom_factories (noteUncertified f r) = custom_factories f"
  by (simp_all add: noteUncertified_def)

lemma foldl_noteUncertified_fields [simp]:
  "config (foldl noteUncertified f rs) = config f"
  "is_initialized (foldl noteUncertified f rs) = is_initialized f"
  "simulation_mode (foldl noteUncertified f rs) = simulation_mode f"
  "detection_cache (foldl noteUncertified f rs) = detection_cache f"
  "last_detection_time (foldl noteUncertified f rs) = last_detection_time f"
  "detection_cache_valid (foldl noteUncertified f rs) = detection_cache_valid f"
  "custom_factories (foldl noteUncertified f rs) = custom_factories f"
  by (induction rs arbitrary: f) simp_all

lemma new_CameraFactory_simp:
  "new_CameraFactory hw =
     foldl noteUncertified
       \<lparr> config = DEFAULT_CONFIG, is_initialized = False, simulation_mode = False,
         detection_cache = [], last_detection_time = 0, detection_cache_valid = False,
         custom_factories = [], error_messages = [], medical_compliance_verified = True \<rparr>
       (detectD435Hardware hw @ detectFemtoMegaHardware hw)
     \<lparr>is_initialized := True\<rparr>"
  by (simp add: new_CameraFactory_def initialize_def clearErrorMessages_def DEFAULT_CONFIG_def
        performHardwareDetection_def Let_def)

lemma new_CameraFactory_fields [simp]:
  "config (new_CameraFactory hw) = DEFAULT_CONFIG"
  "is_initialized (new_CameraFactory hw)"
  "\<not> simulation_mode (new_CameraFactory hw)"
  "detection_cache (new_CameraFactory hw) = []"
  "last_detection_time (new_CameraFactory hw) = 0"
  "\<not> detection_cache_valid (new_CameraFactory hw)"
  "custom_factories (new_CameraFactory hw) = []"
  by (simp_all add: new_CameraFactory_simp)

lemma configure_fields [simp]:
  "config (configure cfg f) = cfg"
  "is_initialized (configure cfg f) = is_initialized f"
  "simulation_mode (configure cfg f) = enable_simulation_mode cfg"
  "detection_cache (configure cfg f) = []"
  "last_detection_time (configure cfg f) = last_detection_time f"
  "\<not> detection_cache_valid (configure cfg f)"
  "custom_factories (configure cfg f) = custom_factories f"
  "error_messages (configure cfg f) = error_messages f"
  "medical_compliance_verified (configure cfg f) = medical_compliance_verified f"
  by (simp_all add: configure_def invalidateDetectionCache_def)

lemma std_sort_two:
  "std_sort cmp [x, y] = (if cmp y x then [y, x] else [x, y])"
  by (simp add: std_sort_def)

lemma selectBestCamera_alt:
  "selectBestCamera cfg ds =
     (case selectBestRecord cfg ds of None \<Rightarrow> [] | Some r \<Rightarrow> camera_type r)"
  by (simp add: selectBestCamera_def selectBestRecord_def std_sort_def)

lemma createCamera_simulation:
  "simulation_mode f \<Longrightarrow> createCamera hw f t = createSimulationCamera hw f t"
  by (simp add: createCamera.simps)

lemma createCamera_named:
  "\<not> simulation_mode f \<Longrightarrow> t \<noteq> ''auto'' \<Longrightarrow>
     createCamera hw f t =
       (case map_of (custom_factories f) t of
          Some creator \<Rightarrow> createCustomCamera f creator
        | None \<Rightarrow> createSpecificCamera hw f t)"
  by (simp add: createCamera.simps)

lemma createBestCamera_empty:
  "performHardwareDetection hw f = [] \<Longrightarrow>
     createBestCamera hw f =
       (if enable_fallback_mode (config f) \<and> enable_simulation_mode (config f)
        then createSimulationCamera hw f ''d435''
        else (None, addErrorMessage ''No cameras detected and fallback disabled'' f))"
  by (simp add: createBestCamera.simps)

lemma createBestCamera_unsuitable:
  "performHardwareDetection hw f \<noteq> [] \<Longrightarrow>
   selectBestCamera (config f) (performHardwareDetection hw f) = [] \<Longrightarrow>
     createBestCamera hw f = (None, addErrorMessage ''No suitable camera found'' f)"
  by (simp add: createBestCamera.simps)

lemma createBestCamera_selected:
  "performHardwareDetection hw f \<noteq> [] \<Longrightarrow>
   selectBestCamera (config f) (performHardwareDetection hw f) \<noteq> [] \<Longrightarrow>
     createBestCamera hw f =
       createCamera hw f (selectBestCamera (config f) (performHardwareDetection hw f))"
  by (simp add: createBestCamera.simps Let_def)

lemma message_step_refl [simp]: "message_step f f"
  by (simp add: message_step_def only_messages_def)

lemma message_step_trans: "message_step f g \<Longrightarrow> message_step g h \<Longrightarrow> message_step f h"
  unfolding message_step_def only_messages_def
  by (metis CameraFactory.update_convs(8) CameraFactory.surjective)

lemma message_step_add [simp]: "message_step f (addErrorMessage m f)"
  by (auto simp: message_step_def only_messages_def bounded_messages_def addErrorMessage_def
        Let_def)

lemma message_step_createSimulationCamera [simp]:
  "message_step f (snd (createSimulationCamera hw f t))"
  by (simp add: createSimulationCamera_def split: option.splits)

lemma message_step_validateCreated [simp]:
  "message_step f (snd (validateCreated f t created))"
  by (simp add: validateCreated_def split: option.splits sum.splits)

lemma message_step_createSpecificCamera [simp]:
  "message_step f (snd (createSpecificCamera hw f t))"
  by (simp add: createSpecificCamera_def split: sum.splits)

lemma message_step_createCustomCamera [simp]:
  "message_step f (snd (createCustomCamera f creator))"
  by (simp add: createCustomCamera_def split: sum.splits)

lemma message_step_createCamera_direct:
  "simulation_mode f \<or> t \<noteq> ''auto'' \<Longrightarrow> message_step f (snd (createCamera hw f t))"
  by (cases "simulation_mode f")
     (simp_all add: createCamera_simulation createCamera_named split: option.splits)

lemma message_step_createBestCamera [simp]:
  "message_step f (snd (createBestCamera hw f))"
proof (cases "performHardwareDetection hw f = []")
  case True
  then show ?thesis by (simp add: createBestCamera_empty)
next
  case False
  show ?thesis
  proof (cases "selectBestCamera (config f) (performHardwareDetection hw f) = []")
    case True
    with False show ?thesis by (simp add: createBestCamera_unsuitable)
  next
    case False
    with \<open>performHardwareDetection hw f \<noteq> []\<close> show ?thesis
      by (simp add: createBestCamera_selected message_step_createCamera_direct
            selectBestCamera_detected_not_auto)
  qed
qed

lemma message_step_createCamera [simp]:
  "message_step f (snd (createCamera hw f t))"
proof (cases "simulation_mode f \<or> t \<noteq> ''auto''")
  case True
  then show ?thesis by (rule message_step_createCamera_direct)
next
  case False
  then show ?thesis by (simp add: createCamera.simps)
qed

lemma message_step_detectConnectedCameras [simp]:
  "message_step f (snd (detectConnectedCameras hw f))"
  by (simp add: detectConnectedCameras_def split: sum.splits)

lemma message_step_bounded: "message_step f f' \<Longrightarrow> bounded_messages f \<Longrightarrow> bounded_messages f'"
  by (simp add: message_step_def)

lemma message_step_simulation_mode:
  "message_step f f' \<Longrightarrow> simulation_mode f' = simulation_mode f"
  unfolding message_step_def only_messages_def
  by (metis CameraFactory.select_convs(3) CameraFactory.surjective CameraFactory.update_convs(8))

lemma message_step_same_cache: "message_step f f' \<Longrightarrow> same_cache f f'"
  unfolding message_step_def only_messages_def same_cache_def
  by (metis CameraFactory.select_convs(4,5,6) CameraFactory.surjective CameraFactory.update_convs(8))

lemma bounded_messages_configure [simp]:
  "bounded_messages (configure cfg f) = bounded_messages f"
  by (simp add: bounded_messages_def)

lemma bounded_messages_detectAllHardware [simp]:
  "bounded_messages (snd (detectAllHardware hw now now' f)) = bounded_messages f"
  by (simp add: bounded_messages_def detectAllHardware_def Let_def)

lemma bounded_messages_step: "bounded_messages f \<Longrightarrow> bounded_messages (step f hwop)"
proof -
  assume b: "bounded_messages f"
  obtain hw op where hwop: "hwop = (hw, op)" by (cases hwop)
  show ?thesis
    unfolding hwop
  proof (cases op)
    case (Configure cfg)
    with b show "bounded_messages (step f (hw, op))" by simp
  next
    case GetConfiguration
    with b show "bounded_messages (step f (hw, op))" by simp
  next
    case (CreateCamera t)
    with b show "bounded_messages (step f (hw, op))"
      using message_step_bounded [OF message_step_createCamera] by simp
  next
    case CreateBestCamera
    with b show "bounded_messages (step f (hw, op))"
      using message_step_bounded [OF message_step_createBestCamera] by simp
  next
    case GetAvailableCameraTypes
    with b show "bounded_messages (step f (hw, op))" by simp
  next
    case DetectConnectedCameras
    with b show "bounded_messages (step f (hw, op))"
      using message_step_bounded [OF message_step_detectConnectedCameras] by simp
  next
    case (DetectAllHardware now now')
    with b show "bounded_messages (step f (hw, op))" by simp
  next
    case CreateDefaultCamera
    with b show "bounded_messages (step f (hw, op))"
      using message_step_bounded [OF message_step_createBestCamera]
      by (simp add: createDefaultCamera_def)
  next
    case CreateDevelopmentCamera
    with b show "bounded_messages (step f (hw, op))"
      using message_step_bounded [OF message_step_createBestCamera]
      by (simp add: createDevelopmentCamera_def)
  next
    case CreateProductionCamera
    with b show "bounded_messages (step f (hw, op))"
      using message_step_bounded [OF message_step_createBestCamera]
      by (simp add: createProductionCamera_def)
  qed
qed

lemma bounded_messages_foldl_step:
  "bounded_messages f \<Longrightarrow> bounded_messages (foldl step f ops)"
  by (induction ops arbitrary: f) (simp_all add: bounded_messages_step)

lemma bounded_messages_addErrorMessage:
  "bounded_messages f \<Longrightarrow> bounded_messages (addErrorMessage m f)"
  using message_step_add message_step_bounded by blast

lemma bounded_messages_noteUncertified:
  "bounded_messages f \<Longrightarrow> bounded_messages (noteUncertified f r)"
  by (simp add: noteUncertified_def bounded_messages_addErrorMessage)
     (simp add: bounded_messages_def addErrorMessage_def Let_def)

lemma bounded_messages_foldl_noteUncertified:
  "bounded_messages f \<Longrightarrow> bounded_messages (foldl noteUncertified f rs)"
  by (induction rs arbitrary: f) (simp_all add: bounded_messages_noteUncertified)

lemma bounded_messages_new: "bounded_messages (new_CameraFactory hw)"
proof -
  have "bounded_messages
     \<lparr> config = DEFAULT_CONFIG, is_initialized = False, simulation_mode = False,
       detection_cache = [], last_detection_time = 0, detection_cache_valid = False,
       custom_factories = [], error_messages = [], medical_compliance_verified = True \<rparr>"
    by (simp add: bounded_messages_def)
  then have "bounded_messages (foldl noteUncertified
     \<lparr> config = DEFAULT_CONFIG, is_initialized = False, simulation_mode = False,
       detection_cache = [], last_detection_time = 0, detection_cache_valid = False,
       custom_factories = [], error_messages = [], medical_compliance_verified = True \<rparr>
       (detectD435Hardware hw @ detectFemtoMegaHardware hw))"
    by (rule bounded_messages_foldl_noteUncertified)
  then show ?thesis
    by (simp add: new_CameraFactory_simp bounded_messages_def)
qed

lemma keeps_cache_step: "keeps_cache op \<Longrightarrow> same_cache f (step f (hw, op))"
proof (cases op)
  case GetConfiguration
  then show ?thesis by (simp add: same_cache_def)
next
  case GetAvailableCameraTypes
  then show ?thesis by (simp add: same_cache_def)
qed (simp_all add: message_step_same_cache createDefaultCamera_def)

lemma keeps_cache_foldl_step:
  "\<forall>hwop \<in> set ops. keeps_cache (snd hwop) \<Longrightarrow> same_cache f (foldl step f ops)"
proof (induction ops arbitrary: f)
  case Nil
  then show ?case by (simp add: same_cache_def)
next
  case (Cons hwop ops)
  obtain hw op where hwop: "hwop = (hw, op)" by (cases hwop)
  have "same_cache f (step f hwop)"
    using Cons.prems by (simp add: hwop keeps_cache_step)
  moreover have "same_cache (step f hwop) (foldl step (step f hwop) ops)"
    using Cons by simp
  ultimately show ?case by (simp add: same_cache_def)
qed

lemma selectBestCamera_one_of_each:
  "selectBestCamera cfg [d435_result s, femto_mega_result s'] = ''femto_mega''
   \<and> selectBestCamera cfg [femto_mega_result s', d435_result s] = ''femto_mega''"
  by (simp add: selectBestCamera_def selectBestRecord_def std_sort_def
        selectBestCamera_comp_def validateDetectionResult_def checkMedicalCertification_def
        d435_result_def femto_mega_result_def float_literals)









lemma run_configure [simp]:
  "config (run hw0 [(hw, Configure cfg)]) = cfg"
  "simulation_mode (run hw0 [(hw, Configure cfg)]) = enable_simulation_mode cfg"
  by (simp_all add: run_def)

subsection \<open>Selection policy\<close>

text \<open>
  C1. In scenario S2 the selector is to produce the structured-light record when the
  medical compliance check is on, and the stereo-IR record when the check is off and
  the stereo-IR tag is the preferred type. The first holds of the code (for the two
  records that detection builds the selection is \<open>femto_mega\<close> under every
  configuration, as shown above). The second does not: the comparator decides on the
  two confidences, \<open>0.95f\<close> against \<open>0.9f\<close>, before it reaches the preferred
  type. The records below are those that detection builds for one camera of each
  kind, with the fields of S2; the configuration is the one that
  \<^verbatim>\<open>createDevelopmentCamera\<close> installs, which its documentation describes as preferring
  the D435. In either order of the records the selection is \<open>femto_mega\<close>, and the
  camera that \<^verbatim>\<open>createDevelopmentCamera\<close> creates on that bench is the Femto Mega.
\<close>

theorem createDevelopmentCamera_selects_femto_mega:
  "camera_type (d435_result ''D-0001'') = ''d435''
   \<and> \<not> is_medical_grade (d435_result ''D-0001'')
   \<and> detection_confidence (d435_result ''D-0001'') = float_0_9
   \<and> camera_type (femto_mega_result ''F-0001'') = ''femto_mega''
   \<and> is_medical_grade (femto_mega_result ''F-0001'')
   \<and> detection_confidence (femto_mega_result ''F-0001'') = float_0_95
   \<and> \<not> enable_medical_compliance_check development_config
   \<and> preferred_camera_type development_config = ''d435''
   \<and> selectBestCamera development_config
         [d435_result ''D-0001'', femto_mega_result ''F-0001''] = ''femto_mega''
   \<and> selectBestCamera development_config
         [femto_mega_result ''F-0001'', d435_result ''D-0001''] = ''femto_mega''
   \<and> config (snd (createDevelopmentCamera bench (new_CameraFactory bench)))
       = development_config
   \<and> fst (createDevelopmentCamera bench (new_CameraFactory bench))
       = Some (Device (DeviceCamera ''femto_mega'' (Inr SUCCESS)))"
proof -
  let ?f = "configure development_config (new_CameraFactory bench)"
  have fields: "camera_type (d435_result ''D-0001'') = ''d435''
     \<and> \<not> is_medical_grade (d435_result ''D-0001'')
     \<and> detection_confidence (d435_result ''D-0001'') = float_0_9
     \<and> camera_type (femto_mega_result ''F-0001'') = ''femto_mega''
     \<and> is_medical_grade (femto_mega_result ''F-0001'')
     \<and> detection_confidence (femto_mega_result ''F-0001'') = float_0_95
     \<and> \<not> enable_medical_compliance_check development_config
     \<and> preferred_camera_type development_config = ''d435''"
    by (simp add: d435_result_def femto_mega_result_def development_config_def
          DEFAULT_CONFIG_def)
  have s1: "selectBestCamera development_config
         [d435_result ''D-0001'', femto_mega_result ''F-0001''] = ''femto_mega''"
    by (simp add: selectBestCamera_def selectBestRecord_def std_sort_def
          selectBestCamera_comp_def validateDetectionResult_def checkMedicalCertification_def
          d435_result_def femto_mega_result_def float_literals development_config_def
          DEFAULT_CONFIG_def)
  have s2: "selectBestCamera development_config
         [femto_mega_result ''F-0001'', d435_result ''D-0001''] = ''femto_mega''"
    by (simp add: selectBestCamera_def selectBestRecord_def std_sort_def
          selectBestCamera_comp_def validateDetectionResult_def checkMedicalCertification_def
          d435_result_def femto_mega_result_def float_literals development_config_def
          DEFAULT_CONFIG_def)
  have dev: "createDevelopmentCamera bench (new_CameraFactory bench) = createBestCamera bench ?f"
    by (simp add: createDevelopmentCamera_def getConfiguration_def development_config_def)
  have d: "performHardwareDetection bench ?f
             = [d435_result ''D-0001'', femto_mega_result ''F-0001'']"
    by (simp add: performHardwareDetection_def detectD435Hardware_def
          detectFemtoMegaHardware_def bench_def development_config_def DEFAULT_CONFIG_def)
  have "createBestCamera bench ?f = createCamera bench ?f ''femto_mega''"
    using createBestCamera_selected [of bench ?f] d s1 by simp
  also have "\<dots> = createSpecificCamera bench ?f ''femto_mega''"
    by (simp add: createCamera_named development_config_def DEFAULT_CONFIG_def)
  also have "\<dots> = (Some (Device (DeviceCamera ''femto_mega'' (Inr SUCCESS))), ?f)"
    by (simp add: createSpecificCamera_def validateCreated_def bench_def
          development_config_def DEFAULT_CONFIG_def)
  finally have r: "createBestCamera bench ?f
                     = (Some (Device (DeviceCamera ''femto_mega'' (Inr SUCCESS))), ?f)" .
  from fields s1 s2 dev r show ?thesis by simp
qed

text \<open>
  C3. For every list of detection records and every configuration, the record that
  \<open>selectBestCamera\<close> selects (the one whose type it returns) is a record of the
  list whose confidence is not below 0.5 and which, when the medical compliance check
  is on, is medical grade; so a non-empty answer always names such a record.
\<close>

theorem selectBestCamera_filter:
  "selectBestCamera cfg detected =
     (case selectBestRecord cfg detected of None \<Rightarrow> [] | Some r \<Rightarrow> camera_type r)
   \<and> (\<forall>r. selectBestRecord cfg detected = Some r \<longrightarrow>
          r \<in> set detected
          \<and> \<not> detection_confidence r < 0.5
          \<and> (enable_medical_compliance_check cfg \<longrightarrow> is_medical_grade r))
   \<and> (selectBestCamera cfg detected \<noteq> [] \<longrightarrow>
        (\<exists>r \<in> set detected.
           camera_type r = selectBestCamera cfg detected
           \<and> \<not> detection_confidence r < 0.5
           \<and> (enable_medical_compliance_check cfg \<longrightarrow> is_medical_grade r)))"
proof -
  have alt: "selectBestCamera cfg detected =
     (case selectBestRecord cfg detected of None \<Rightarrow> [] | Some r \<Rightarrow> camera_type r)"
    by (rule selectBestCamera_alt)
  have sel: "r \<in> set detected \<and> \<not> detection_confidence r < 0.5
          \<and> (enable_medical_compliance_check cfg \<longrightarrow> is_medical_grade r)"
    if "selectBestRecord cfg detected = Some r" for r
  proof -
    from that have "r \<in> set detected" and v: "validateDetectionResult cfg r"
      using selectBestRecord_Some by blast+
    moreover from v have "\<not> detection_confidence r < 0.5"
      by (simp add: validateDetectionResult_def split: if_splits)
    moreover from v have "enable_medical_compliance_check cfg \<longrightarrow> is_medical_grade r"
      by (simp add: validateDetectionResult_def checkMedicalCertification_def split: if_splits)
    ultimately show ?thesis by simp
  qed
  have named: "\<exists>r \<in> set detected.
           camera_type r = selectBestCamera cfg detected
           \<and> \<not> detection_confidence r < 0.5
           \<and> (enable_medical_compliance_check cfg \<longrightarrow> is_medical_grade r)"
    if "selectBestCamera cfg detected \<noteq> []"
  proof (cases "selectBestRecord cfg detected")
    case None
    with that alt show ?thesis by simp
  next
    case (Some r)
    with alt have "camera_type r = selectBestCamera cfg detected" by simp
    with sel [OF Some] show ?thesis by blast
  qed
  from alt sel named show ?thesis by blast
qed

theorem selectBestCamera_filter_witness:
  "selectBestRecord DEFAULT_CONFIG [d435_result ''D-0001'', femto_mega_result ''F-0001'']
     = Some (femto_mega_result ''F-0001'')
   \<and> \<not> detection_confidence (femto_mega_result ''F-0001'') < 0.5
   \<and> is_medical_grade (femto_mega_result ''F-0001'')"
proof -
  have sel: "selectBestRecord DEFAULT_CONFIG
               [d435_result ''D-0001'', femto_mega_result ''F-0001'']
             = Some (femto_mega_result ''F-0001'')"
    by (simp add: selectBestRecord_def std_sort_def selectBestCamera_comp_def
          validateDetectionResult_def checkMedicalCertification_def
          d435_result_def float_literals femto_mega_result_def DEFAULT_CONFIG_def)
  moreover have "enable_medical_compliance_check DEFAULT_CONFIG"
    by (simp add: DEFAULT_CONFIG_def)
  ultimately show ?thesis
    using selectBestCamera_filter
      [of DEFAULT_CONFIG "[d435_result ''D-0001'', femto_mega_result ''F-0001'']"]
    by blast
qed

subsection \<open>Automatic creation\<close>




text \<open>
  C4, as the code has it. When detection returns records and one of them passes
  validation, the selected type is the type of the first record, in sorted order,
  that passes validation, and \<open>createBestCamera\<close> is one call of \<open>createCamera\<close>
  for that type (outside simulation mode and with no custom factory of that name,
  one run of the sub-factory creation with its \<open>validate()\<close> check). If that single
  attempt yields no camera, \<open>createBestCamera\<close> yields none: no other candidate is
  tried.
\<close>

theorem createBestCamera_single_attempt:
  assumes "performHardwareDetection hw f \<noteq> []"
    and "selectBestCamera (config f) (performHardwareDetection hw f) = best"
    and "best \<noteq> []"
  shows "(\<exists>r. find (validateDetectionResult (config f))
                (std_sort (selectBestCamera_comp (config f)) (performHardwareDetection hw f))
              = Some r \<and> camera_type r = best)
         \<and> createBestCamera hw f = createCamera hw f best
         \<and> (\<not> simulation_mode f \<and> map_of (custom_factories f) best = None \<longrightarrow>
              createBestCamera hw f = createSpecificCamera hw f best)
         \<and> (fst (createCamera hw f best) = None \<longrightarrow> fst (createBestCamera hw f) = None)"
proof -
  have sel: "createBestCamera hw f = createCamera hw f best"
    using assms by (simp add: createBestCamera_selected)
  have na: "best \<noteq> ''auto''"
    using assms(2) selectBestCamera_detected_not_auto by blast
  have "\<exists>r. selectBestRecord (config f) (performHardwareDetection hw f) = Some r
             \<and> camera_type r = best"
    using assms(2,3) by (auto simp: selectBestCamera_alt split: option.splits)
  then have first: "\<exists>r. find (validateDetectionResult (config f))
                (std_sort (selectBestCamera_comp (config f)) (performHardwareDetection hw f))
              = Some r \<and> camera_type r = best"
    by (simp add: selectBestRecord_def)
  have spec: "createBestCamera hw f = createSpecificCamera hw f best"
    if "\<not> simulation_mode f \<and> map_of (custom_factories f) best = None"
    using that sel na by (simp add: createCamera_named)
  from sel first spec show ?thesis by simp
qed

theorem createBestCamera_single_attempt_witness:
  "createBestCamera bench (new_CameraFactory bench)
     = createSpecificCamera bench (new_CameraFactory bench) ''femto_mega''
   \<and> fst (createBestCamera bench_femto_broken (new_CameraFactory bench_femto_broken)) = None"
proof -
  let ?f = "new_CameraFactory bench"
  let ?g = "new_CameraFactory bench_femto_broken"
  have d: "performHardwareDetection bench ?f
             = [d435_result ''D-0001'', femto_mega_result ''F-0001'']"
    "performHardwareDetection bench_femto_broken ?g
             = [d435_result ''D-0001'', femto_mega_result ''F-0001'']"
    by (simp_all add: performHardwareDetection_def detectD435Hardware_def
          detectFemtoMegaHardware_def bench_femto_broken_def bench_def)
  have ne: "performHardwareDetection bench ?f \<noteq> []"
    "performHardwareDetection bench_femto_broken ?g \<noteq> []"
    by (simp_all add: d)
  have s: "selectBestCamera DEFAULT_CONFIG
             [d435_result ''D-0001'', femto_mega_result ''F-0001''] = ''femto_mega''"
    by (simp add: selectBestCamera_def selectBestRecord_def std_sort_def
          selectBestCamera_comp_def validateDetectionResult_def checkMedicalCertification_def
          d435_result_def float_literals femto_mega_result_def DEFAULT_CONFIG_def)
  have b: "selectBestCamera (config ?f) (performHardwareDetection bench ?f) = ''femto_mega''"
    "selectBestCamera (config ?g) (performHardwareDetection bench_femto_broken ?g)
       = ''femto_mega''"
    by (simp_all add: d s)
  have c: "\<not> simulation_mode ?f \<and> map_of (custom_factories ?f) ''femto_mega'' = None"
    by simp
  have broken: "fst (createCamera bench_femto_broken ?g ''femto_mega'') = None"
    by (simp add: createCamera_named createSpecificCamera_def validateCreated_def
          bench_femto_broken_def bench_def)
  from createBestCamera_single_attempt [OF ne(1) b(1)] c
  have 1: "createBestCamera bench ?f = createSpecificCamera bench ?f ''femto_mega''"
    by blast
  from createBestCamera_single_attempt [OF ne(2) b(2)] broken
  have 2: "fst (createBestCamera bench_femto_broken ?g) = None"
    by blast
  from 1 2 show ?thesis by simp
qed

text \<open>
  C4 as first stated asks for the next candidate to be tried. On a bench where both
  cameras are detected and pass validation, the structured-light camera comes first
  in sorted order and cannot be created, and the stereo-IR camera can be created and
  validates; \<open>createBestCamera\<close> still returns no camera.
\<close>

theorem createBestCamera_next_candidate_counterexample:
  "performHardwareDetection bench_femto_broken
      (configure any_grade_config (new_CameraFactory bench_femto_broken))
     = [d435_result ''D-0001'', femto_mega_result ''F-0001'']
   \<and> validateDetectionResult any_grade_config (d435_result ''D-0001'')
   \<and> validateDetectionResult any_grade_config (femto_mega_result ''F-0001'')
   \<and> std_sort (selectBestCamera_comp any_grade_config)
        [d435_result ''D-0001'', femto_mega_result ''F-0001'']
       = [femto_mega_result ''F-0001'', d435_result ''D-0001'']
   \<and> fst (createCamera bench_femto_broken
             (configure any_grade_config (new_CameraFactory bench_femto_broken)) ''femto_mega'')
       = None
   \<and> fst (createCamera bench_femto_broken
             (configure any_grade_config (new_CameraFactory bench_femto_broken)) ''d435'')
       = Some (Device (DeviceCamera ''d435'' (Inr SUCCESS)))
   \<and> fst (createBestCamera bench_femto_broken
             (configure any_grade_config (new_CameraFactory bench_femto_broken)))
       = None"
proof -
  let ?hw = bench_femto_broken
  let ?f = "configure any_grade_config (new_CameraFactory bench_femto_broken)"
  have f: "\<not> simulation_mode ?f" "config ?f = any_grade_config"
    "custom_factories ?f = []"
    by (simp_all add: any_grade_config_def DEFAULT_CONFIG_def)
  have d: "performHardwareDetection ?hw ?f = [d435_result ''D-0001'', femto_mega_result ''F-0001'']"
    using f(1)
    by (simp add: performHardwareDetection_def detectD435Hardware_def
          detectFemtoMegaHardware_def bench_femto_broken_def bench_def)
  have v: "validateDetectionResult any_grade_config (d435_result ''D-0001'')"
    "validateDetectionResult any_grade_config (femto_mega_result ''F-0001'')"
    by (simp_all add: validateDetectionResult_def any_grade_config_def DEFAULT_CONFIG_def
          d435_result_def float_literals femto_mega_result_def)
  have s: "std_sort (selectBestCamera_comp any_grade_config)
        [d435_result ''D-0001'', femto_mega_result ''F-0001'']
       = [femto_mega_result ''F-0001'', d435_result ''D-0001'']"
    by (simp add: std_sort_two selectBestCamera_comp_def any_grade_config_def
          DEFAULT_CONFIG_def d435_result_def float_literals femto_mega_result_def)
  have b: "selectBestCamera any_grade_config
             [d435_result ''D-0001'', femto_mega_result ''F-0001''] = ''femto_mega''"
    using s v by (simp add: selectBestCamera_alt selectBestRecord_def femto_mega_result_def)
  have hv: "enable_hardware_validation (config ?f)"
    by (simp add: f(2) any_grade_config_def DEFAULT_CONFIG_def)
  have cf: "fst (createCamera ?hw ?f ''femto_mega'') = None"
    using f(1,3)
    by (simp add: createCamera_named createSpecificCamera_def validateCreated_def
          bench_femto_broken_def bench_def)
  have cd: "fst (createCamera ?hw ?f ''d435'')
              = Some (Device (DeviceCamera ''d435'' (Inr SUCCESS)))"
    using f(1,3) hv
    by (simp add: createCamera_named createSpecificCamera_def validateCreated_def
          bench_femto_broken_def bench_def)
  have "createBestCamera ?hw ?f = createCamera ?hw ?f ''femto_mega''"
    using createBestCamera_selected [of ?hw ?f] d b f(2) by simp
  with cf have cb: "fst (createBestCamera ?hw ?f) = None" by simp
  from d v s cf cd cb show ?thesis by simp
qed

subsection \<open>Detection cache\<close>

text \<open>
  C5. Let a call of \<open>detectAllHardware\<close> find no valid cache, so that it detects and
  stores its results with the clock reading \<open>stored\<close>, and let any operations follow
  that neither reconfigure the factory nor call \<open>detectAllHardware\<close>. Then a call
  whose clock reads \<open>now\<close> returns those stored results, without looking at the
  hardware and without changing the factory, if \<open>now\<close> is less than five minutes
  after \<open>stored\<close>, and the results of a fresh detection otherwise. After
  \<open>configure\<close> the next call always returns the results of a fresh detection.
\<close>

theorem detectAllHardware_cache:
  assumes fresh: "\<not> isDetectionCacheValid first_now f"
    and stored: "f_stored = snd (detectAllHardware first_hw first_now stored f)"
    and ops: "\<forall>hwop \<in> set ops. keeps_cache (snd hwop)"
    and later: "f_later = foldl step f_stored ops"
  shows "fst (detectAllHardware hw now now' f_later) =
           (if now - stored < DETECTION_CACHE_TIMEOUT
            then fst (detectAllHardware first_hw first_now stored f)
            else performHardwareDetection hw f_later)
         \<and> (now - stored < DETECTION_CACHE_TIMEOUT \<longrightarrow>
              snd (detectAllHardware hw now now' f_later) = f_later)
         \<and> fst (detectAllHardware hw now now' (configure cfg f_later)) =
             performHardwareDetection hw (configure cfg f_later)"
proof -
  have c1: "detection_cache f_stored = performHardwareDetection first_hw f"
    "last_detection_time f_stored = stored" "detection_cache_valid f_stored"
    "fst (detectAllHardware first_hw first_now stored f) = performHardwareDetection first_hw f"
    using fresh by (simp_all add: stored detectAllHardware_def Let_def)
  have "same_cache f_stored f_later"
    unfolding later using ops by (rule keeps_cache_foldl_step)
  with c1 have c2: "detection_cache f_later = performHardwareDetection first_hw f"
    "last_detection_time f_later = stored" "detection_cache_valid f_later"
    by (simp_all add: same_cache_def)
  have v: "isDetectionCacheValid now f_later \<longleftrightarrow> now - stored < DETECTION_CACHE_TIMEOUT"
    by (simp add: isDetectionCacheValid_def c2)
  have "\<not> isDetectionCacheValid now (configure cfg f_later)"
    by (simp add: isDetectionCacheValid_def)
  then have 3: "fst (detectAllHardware hw now now' (configure cfg f_later)) =
             performHardwareDetection hw (configure cfg f_later)"
    by (simp add: detectAllHardware_def Let_def)
  from v c1 c2 3 show ?thesis
    by (simp add: detectAllHardware_def Let_def)
qed

theorem detectAllHardware_cache_witness:
  "fst (detectAllHardware bench_empty 60000000000 60000000001
          (foldl step (snd (detectAllHardware bench 0 0 (new_CameraFactory bench)))
             [(bench, CreateBestCamera)]))
     = [d435_result ''D-0001'', femto_mega_result ''F-0001'']
   \<and> snd (detectAllHardware bench_empty 60000000000 60000000001
          (foldl step (snd (detectAllHardware bench 0 0 (new_CameraFactory bench)))
             [(bench, CreateBestCamera)]))
     = foldl step (snd (detectAllHardware bench 0 0 (new_CameraFactory bench)))
             [(bench, CreateBestCamera)]
   \<and> fst (detectAllHardware bench_empty 300000000000 300000000001
          (foldl step (snd (detectAllHardware bench 0 0 (new_CameraFactory bench)))
             [(bench, CreateBestCamera)]))
     = []"
proof -
  let ?f1 = "snd (detectAllHardware bench 0 0 (new_CameraFactory bench))"
  let ?f2 = "foldl step ?f1 [(bench, CreateBestCamera)]"
  have fresh: "\<not> isDetectionCacheValid 0 (new_CameraFactory bench)"
    by (simp add: isDetectionCacheValid_def)
  have ops: "\<forall>hwop \<in> set [(bench, CreateBestCamera)]. keeps_cache (snd hwop)"
    by simp
  have r0: "fst (detectAllHardware bench 0 0 (new_CameraFactory bench))
              = [d435_result ''D-0001'', femto_mega_result ''F-0001'']"
    using fresh
    by (simp add: detectAllHardware_def Let_def performHardwareDetection_def
          detectD435Hardware_def detectFemtoMegaHardware_def bench_def)
  have "\<not> simulation_mode ?f1"
    using fresh by (simp add: detectAllHardware_def Let_def)
  then have "\<not> simulation_mode ?f2"
    using message_step_simulation_mode [OF message_step_createBestCamera, of bench ?f1]
    by simp
  then have r2: "performHardwareDetection bench_empty ?f2 = []"
    by (simp add: performHardwareDetection_def detectD435Hardware_def
          detectFemtoMegaHardware_def bench_empty_def bench_def)
  have early: "(60000000000::int) - 0 < DETECTION_CACHE_TIMEOUT"
    and late: "\<not> (300000000000::int) - 0 < DETECTION_CACHE_TIMEOUT"
    by (simp_all add: DETECTION_CACHE_TIMEOUT_def)
  note c1 = detectAllHardware_cache
            [where first_hw = bench and stored = 0 and hw = bench_empty and now = 60000000000
               and now' = 60000000001, OF fresh refl ops refl]
  note c2 = detectAllHardware_cache
            [where first_hw = bench and stored = 0 and hw = bench_empty and now = 300000000000
               and now' = 300000000001, OF fresh refl ops refl]
  from c1 early r0
  have a: "fst (detectAllHardware bench_empty 60000000000 60000000001 ?f2)
             = [d435_result ''D-0001'', femto_mega_result ''F-0001'']"
    and a': "snd (detectAllHardware bench_empty 60000000000 60000000001 ?f2) = ?f2"
    by presburger+
  from c2 late r2
  have b: "fst (detectAllHardware bench_empty 300000000000 300000000001 ?f2) = []"
    by presburger
  from a a' b show ?thesis by blast
qed

subsection \<open>Simulation\<close>

text \<open>
  C6, as the code has it. In simulation mode hardware detection returns exactly the
  two records \<open>d435_sim\<close> and \<open>femto_mega_sim\<close>, and both report medical grade.
\<close>

theorem simulation_detection_medical_grade:
  "simulation_mode f \<Longrightarrow>
     performHardwareDetection hw f = [d435_sim, femto_sim]
     \<and> (\<forall>r \<in> set (performHardwareDetection hw f). is_medical_grade r)"
  by (simp add: performHardwareDetection_def d435_sim_def femto_sim_def)

theorem simulation_detection_medical_grade_witness:
  "simulation_mode (configure (DEFAULT_CONFIG\<lparr>enable_simulation_mode := True\<rparr>)
                      (new_CameraFactory bench_empty))
   \<and> femto_sim \<in> set (performHardwareDetection bench_empty
            (configure (DEFAULT_CONFIG\<lparr>enable_simulation_mode := True\<rparr>)
               (new_CameraFactory bench_empty)))
   \<and> is_medical_grade femto_sim"
proof -
  have sim: "simulation_mode (configure (DEFAULT_CONFIG\<lparr>enable_simulation_mode := True\<rparr>)
                      (new_CameraFactory bench_empty))"
    by simp
  from simulation_detection_medical_grade [OF sim, of bench_empty]
  have "femto_sim \<in> set (performHardwareDetection bench_empty
            (configure (DEFAULT_CONFIG\<lparr>enable_simulation_mode := True\<rparr>)
               (new_CameraFactory bench_empty)))"
    and "\<forall>r \<in> set (performHardwareDetection bench_empty
            (configure (DEFAULT_CONFIG\<lparr>enable_simulation_mode := True\<rparr>)
               (new_CameraFactory bench_empty))). is_medical_grade r"
    by simp_all
  with sim show ?thesis by blast
qed

text \<open>
  C6 as first stated has the simulation records report \<open>is_medical_grade = false\<close>
  by default. The records detected in simulation mode, after the default
  configuration with simulation enabled, both report \<open>true\<close>.
\<close>

theorem simulation_detection_not_medical_counterexample:
  "map is_medical_grade
     (performHardwareDetection bench_empty
        (configure (DEFAULT_CONFIG\<lparr>enable_simulation_mode := True\<rparr>)
           (new_CameraFactory bench_empty)))
   = [True, True]"
  by (simp add: performHardwareDetection_def configure_def invalidateDetectionCache_def
        d435_sim_def femto_sim_def)

text \<open>
  C9, as the code has it. In simulation mode \<open>createCamera\<close> is
  \<open>createSimulationCamera\<close> for every requested type string, so that the request
  reaches neither the sub-factories nor the custom factories nor any \<open>validate()\<close>.
  It returns the simulation camera of that type and leaves the factory unchanged when
  the simulation camera's constructor does not throw; when the constructor throws, it
  returns no camera and adds the message \<open>Failed to create simulation camera: \<close>
  followed by what the exception says. The camera returned depends on nothing but
  that constructor.
\<close>

theorem createCamera_simulation_bypass:
  assumes "simulation_mode f"
  shows "createCamera hw f t = createSimulationCamera hw f t
         \<and> (SimulationCamera_throws hw t = None \<longrightarrow>
              createCamera hw f t = (Some (SimulationCamera t), f))
         \<and> (\<forall>e. SimulationCamera_throws hw t = Some e \<longrightarrow>
              createCamera hw f t =
                (None, addErrorMessage (''Failed to create simulation camera: '' @ e) f))
         \<and> (\<forall>hw' f'. simulation_mode f' \<and> SimulationCamera_throws hw' = SimulationCamera_throws hw
              \<longrightarrow> fst (createCamera hw' f' t) = fst (createCamera hw f t))"
proof (intro conjI allI impI)
  show eq: "createCamera hw f t = createSimulationCamera hw f t"
    using assms by (rule createCamera_simulation)
  show "createCamera hw f t = (Some (SimulationCamera t), f)"
    if "SimulationCamera_throws hw t = None"
    using that eq by (simp add: createSimulationCamera_def)
  show "createCamera hw f t =
          (None, addErrorMessage (''Failed to create simulation camera: '' @ e) f)"
    if "SimulationCamera_throws hw t = Some e" for e
    using that eq by (simp add: createSimulationCamera_def)
  show "fst (createCamera hw' f' t) = fst (createCamera hw f t)"
    if "simulation_mode f' \<and> SimulationCamera_throws hw' = SimulationCamera_throws hw" for hw' f'
    using that assms
    by (simp add: createCamera_simulation createSimulationCamera_def split: option.splits)
qed

theorem createCamera_simulation_bypass_witness:
  "createCamera bench
     (configure fallback_config (new_CameraFactory bench)) ''femto_mega''
   = (Some (SimulationCamera ''femto_mega''),
      configure fallback_config (new_CameraFactory bench))
   \<and> createCamera bench_sim_throws
       (configure fallback_config (new_CameraFactory bench_sim_throws)) ''femto_mega''
     = (None,
        addErrorMessage ''Failed to create simulation camera: std::bad_alloc''
          (configure fallback_config (new_CameraFactory bench_sim_throws)))
   \<and> fst (createCamera bench_femto_broken
            (configure fallback_config (new_CameraFactory bench_femto_broken)) ''femto_mega'')
     = Some (SimulationCamera ''femto_mega'')"
proof -
  let ?f = "configure fallback_config (new_CameraFactory bench)"
  let ?g = "configure fallback_config (new_CameraFactory bench_femto_broken)"
  let ?h = "configure fallback_config (new_CameraFactory bench_sim_throws)"
  have sim: "simulation_mode ?f" "simulation_mode ?h"
    by (simp_all add: fallback_config_def)
  have ok: "SimulationCamera_throws bench ''femto_mega'' = None"
    by (simp add: bench_def)
  have bad: "SimulationCamera_throws bench_sim_throws ''femto_mega'' = Some ''std::bad_alloc''"
    by (simp add: bench_sim_throws_def)
  have other: "simulation_mode ?g
                 \<and> SimulationCamera_throws bench_femto_broken = SimulationCamera_throws bench"
    by (simp add: fallback_config_def bench_femto_broken_def)
  from createCamera_simulation_bypass [OF sim(1), of bench "''femto_mega''"] ok
  have 1: "createCamera bench ?f ''femto_mega'' = (Some (SimulationCamera ''femto_mega''), ?f)"
    by blast
  from createCamera_simulation_bypass [OF sim(2), of bench_sim_throws "''femto_mega''"] bad
  have "createCamera bench_sim_throws ?h ''femto_mega''
          = (None, addErrorMessage
                     (''Failed to create simulation camera: '' @ ''std::bad_alloc'') ?h)"
    by blast
  then have 2: "createCamera bench_sim_throws ?h ''femto_mega''
          = (None, addErrorMessage ''Failed to create simulation camera: std::bad_alloc'' ?h)"
    by simp
  from createCamera_simulation_bypass [OF sim(1), of bench "''femto_mega''"] other
  have "fst (createCamera bench_femto_broken ?g ''femto_mega'')
          = fst (createCamera bench ?f ''femto_mega'')"
    by blast
  with 1 2 show ?thesis by simp
qed

text \<open>
  C9 as first stated has a simulation camera returned for every type string. On
  hardware where the constructor throws, simulation mode returns no camera.
\<close>

theorem createCamera_simulation_throws_counterexample:
  "simulation_mode (configure fallback_config (new_CameraFactory bench_sim_throws))
   \<and> SimulationCamera_throws bench_sim_throws ''d435'' = Some ''std::bad_alloc''
   \<and> fst (createCamera bench_sim_throws
            (configure fallback_config (new_CameraFactory bench_sim_throws)) ''d435'')
       = None"
proof -
  have sim: "simulation_mode (configure fallback_config (new_CameraFactory bench_sim_throws))"
    by (simp add: fallback_config_def)
  have bad: "SimulationCamera_throws bench_sim_throws ''d435'' = Some ''std::bad_alloc''"
    by (simp add: bench_sim_throws_def)
  from sim bad show ?thesis
    by (simp add: createCamera_simulation createSimulationCamera_def)
qed

subsection \<open>Error history\<close>

text \<open>
  C10. After construction and any sequence of the factory's operations, on whatever
  hardware each of them meets, the error-message list holds at most 100 entries.
  Adding a message to a list within the bound keeps the bound: on a full list of 100
  the oldest entry goes and the new one is appended, otherwise the new one is just
  appended.
\<close>

theorem error_messages_bounded:
  "length (error_messages (run hw0 ops)) \<le> 100
   \<and> (\<forall>f m. length (error_messages f) \<le> 100 \<longrightarrow>
          length (error_messages (addErrorMessage m f)) \<le> 100
          \<and> error_messages (addErrorMessage m f)
              = (if length (error_messages f) = 100
                 then tl (error_messages f) @ [m]
                 else error_messages f @ [m]))"
proof (intro conjI allI impI)
  show "length (error_messages (run hw0 ops)) \<le> 100"
    using bounded_messages_foldl_step [OF bounded_messages_new, of hw0 ops]
    by (simp add: run_def bounded_messages_def)
next
  fix f :: CameraFactory and m assume "length (error_messages f) \<le> 100"
  then show "length (error_messages (addErrorMessage m f)) \<le> 100"
    by (auto simp: addErrorMessage_def Let_def)
  from \<open>length (error_messages f) \<le> 100\<close>
  show "error_messages (addErrorMessage m f)
              = (if length (error_messages f) = 100
                 then tl (error_messages f) @ [m]
                 else error_messages f @ [m])"
    by (cases "error_messages f") (auto simp: addErrorMessage_def Let_def)
qed

theorem error_messages_bounded_witness:
  "error_messages
     (addErrorMessage ''late''
        ((new_CameraFactory bench_empty)\<lparr>error_messages := replicate 100 ''early''\<rparr>))
   = replicate 99 ''early'' @ [''late'']"
proof -
  let ?f = "(new_CameraFactory bench_empty)\<lparr>error_messages := replicate 100 ''early''\<rparr>"
  have len: "length (error_messages ?f) \<le> 100"
    by simp
  from error_messages_bounded [of bench_empty "[]"]
  have "\<forall>f m. length (error_messages f) \<le> 100 \<longrightarrow>
          length (error_messages (addErrorMessage m f)) \<le> 100
          \<and> error_messages (addErrorMessage m f)
              = (if length (error_messages f) = 100
                 then tl (error_messages f) @ [m]
                 else error_messages f @ [m])"
    by (rule conjunct2)
  with len have "error_messages (addErrorMessage ''late'' ?f)
              = (if length (error_messages ?f) = 100
                 then tl (error_messages ?f) @ [''late'']
                 else error_messages ?f @ [''late''])"
    by blast
  then show ?thesis by simp
qed

subsection \<open>Error taxonomy\<close>

text \<open>
  C7. The camera error enumeration has exactly the fourteen members of the taxonomy
  table, with the codes 0 for SUCCESS and 1001 to 1013 for the thirteen error kinds, in
  the table's order; no other member and no other code exists.
\<close>

theorem CameraError_codes:
  "map error_code
     [SUCCESS, DEVICE_NOT_FOUND, CONNECTION_FAILED, INITIALIZATION_FAILED, CAPTURE_FAILED,
      INVALID_CONFIGURATION, HARDWARE_FAULT, FIRMWARE_ERROR, CALIBRATION_ERROR, TIMEOUT,
      INSUFFICIENT_POWER, TEMPERATURE_ERROR, MEMORY_ERROR, SAFETY_VIOLATION]
   = [0, 1001, 1002, 1003, 1004, 1005, 1006, 1007, 1008, 1009, 1010, 1011, 1012, 1013]
   \<and> (UNIV :: CameraError set) =
       {SUCCESS, DEVICE_NOT_FOUND, CONNECTION_FAILED, INITIALIZATION_FAILED, CAPTURE_FAILED,
        INVALID_CONFIGURATION, HARDWARE_FAULT, FIRMWARE_ERROR, CALIBRATION_ERROR, TIMEOUT,
        INSUFFICIENT_POWER, TEMPERATURE_ERROR, MEMORY_ERROR, SAFETY_VIOLATION}
   \<and> range error_code = insert 0 {1001..1013}"
proof (intro conjI)
  show "map error_code
     [SUCCESS, DEVICE_NOT_FOUND, CONNECTION_FAILED, INITIALIZATION_FAILED, CAPTURE_FAILED,
      INVALID_CONFIGURATION, HARDWARE_FAULT, FIRMWARE_ERROR, CALIBRATION_ERROR, TIMEOUT,
      INSUFFICIENT_POWER, TEMPERATURE_ERROR, MEMORY_ERROR, SAFETY_VIOLATION]
   = [0, 1001, 1002, 1003, 1004, 1005, 1006, 1007, 1008, 1009, 1010, 1011, 1012, 1013]"
    by simp
next
  show all: "(UNIV :: CameraError set) =
       {SUCCESS, DEVICE_NOT_FOUND, CONNECTION_FAILED, INITIALIZATION_FAILED, CAPTURE_FAILED,
        INVALID_CONFIGURATION, HARDWARE_FAULT, FIRMWARE_ERROR, CALIBRATION_ERROR, TIMEOUT,
        INSUFFICIENT_POWER, TEMPERATURE_ERROR, MEMORY_ERROR, SAFETY_VIOLATION}"
  proof (rule set_eqI)
    fix e :: CameraError
    show "e \<in> UNIV \<longleftrightarrow> e \<in>
       {SUCCESS, DEVICE_NOT_FOUND, CONNECTION_FAILED, INITIALIZATION_FAILED, CAPTURE_FAILED,
        INVALID_CONFIGURATION, HARDWARE_FAULT, FIRMWARE_ERROR, CALIBRATION_ERROR, TIMEOUT,
        INSUFFICIENT_POWER, TEMPERATURE_ERROR, MEMORY_ERROR, SAFETY_VIOLATION}"
      by (cases e) simp_all
  qed
  show "range error_code = insert 0 {1001..1013}"
  proof (rule set_eqI)
    fix n :: int
    have "n \<in> range error_code \<longleftrightarrow> (\<exists>e. n = error_code e)"
      by auto
    also have "\<dots> \<longleftrightarrow> n \<in> {0, 1001, 1002, 1003, 1004, 1005, 1006, 1007, 1008, 1009, 1010,
                              1011, 1012, 1013}"
    proof
      assume "\<exists>e. n = error_code e"
      then obtain e where "n = error_code e" ..
      then show "n \<in> {0, 1001, 1002, 1003, 1004, 1005, 1006, 1007, 1008, 1009, 1010,
                       1011, 1012, 1013}"
        by (cases e) simp_all
    next
      assume "n \<in> {0, 1001, 1002, 1003, 1004, 1005, 1006, 1007, 1008, 1009, 1010,
                    1011, 1012, 1013}"
      then consider "n = error_code SUCCESS" | "n = error_code DEVICE_NOT_FOUND"
        | "n = error_code CONNECTION_FAILED" | "n = error_code INITIALIZATION_FAILED"
        | "n = error_code CAPTURE_FAILED" | "n = error_code INVALID_CONFIGURATION"
        | "n = error_code HARDWARE_FAULT" | "n = error_code FIRMWARE_ERROR"
        | "n = error_code CALIBRATION_ERROR" | "n = error_code TIMEOUT"
        | "n = error_code INSUFFICIENT_POWER" | "n = error_code TEMPERATURE_ERROR"
        | "n = error_code MEMORY_ERROR" | "n = error_code SAFETY_VIOLATION"
        by auto
      then show "\<exists>e. n = error_code e"
        by cases blast+
    qed
    also have "\<dots> \<longleftrightarrow> n \<in> insert 0 {1001..1013}"
      by (simp only: insert_iff empty_iff atLeastAtMost_iff) presburger
    finally show "n \<in> range error_code \<longleftrightarrow> n \<in> insert 0 {1001..1013}" .
  qed
qed

subsection \<open>Capture configuration defaults\<close>

text \<open>
  C8. A default-constructed capture configuration has a frame-buffer depth of 5 and a
  maximum operating temperature of 70.0 degrees Celsius.
\<close>

theorem default_CameraConfig_buffer_and_temperature:
  "buffer_size default_CameraConfig = 5 \<and> max_temperature default_CameraConfig = 70"
  by (simp add: default_CameraConfig_def)

end
